theory Spec2Isabelle
  imports Main "HOL-Library.AList"
begin

section \<open>Python values\<close>

text \<open>
  Decoded attribute values and parsed JSON are heterogeneous Python values. The model keeps
  \<open>None\<close>, booleans, integers, strings, lists and dictionaries; floats and byte strings are
  left out. Dictionary keys and set elements are hashable values (\<open>py_key\<close>).
\<close>

datatype py_key = KNone | KBool bool | KInt int | KStr string

datatype py_value =
    VNone
  | VBool bool
  | VInt int
  | VStr string
  | VList "py_value list"
  | VDict "(py_key \<times> py_value) list"

datatype matter_error =
    NodeNotExists
  | NodeNotReady
  | NodeCommissionFailed
  | NodeInterviewFailed
  | NodeNotResolving
  | InvalidArguments
  | ChipStackError
  | KeyError
  | IndexError
  | TypeError
  | ValueError

text \<open>Python's \<open>==\<close>: \<open>True == 1\<close>, and dictionaries compare without regard to order.\<close>

fun py_key_eq :: "py_key \<Rightarrow> py_key \<Rightarrow> bool" where
  "py_key_eq KNone KNone = True"
| "py_key_eq (KBool a) (KBool b) = (a = b)"
| "py_key_eq (KBool a) (KInt j) = ((if a then 1 else 0) = j)"
| "py_key_eq (KInt i) (KBool b) = (i = (if b then 1 else 0))"
| "py_key_eq (KInt i) (KInt j) = (i = j)"
| "py_key_eq (KStr s) (KStr t) = (s = t)"
| "py_key_eq _ _ = False"

fun py_eq :: "py_value \<Rightarrow> py_value \<Rightarrow> bool" where
  "py_eq VNone VNone = True"
| "py_eq (VBool a) (VBool b) = (a = b)"
| "py_eq (VBool a) (VInt j) = ((if a then 1 else 0) = j)"
| "py_eq (VInt i) (VBool b) = (i = (if b then 1 else 0))"
| "py_eq (VInt i) (VInt j) = (i = j)"
| "py_eq (VStr s) (VStr t) = (s = t)"
| "py_eq (VList xs) (VList ys) = list_all2 py_eq xs ys"
| "py_eq (VDict d) (VDict e) =
     (length d = length e \<and>
      list_all (\<lambda>(k, v). list_ex (\<lambda>(k', v'). py_key_eq k k' \<and> py_eq v v') e) d)"
| "py_eq _ _ = False"

text \<open>Truthiness, as tested by \<open>if x\<close>, \<open>x or y\<close> and \<open>while x\<close>.\<close>

fun truthy :: "py_value \<Rightarrow> bool" where
  "truthy VNone = False"
| "truthy (VBool b) = b"
| "truthy (VInt i) = (i \<noteq> 0)"
| "truthy (VStr s) = (s \<noteq> [])"
| "truthy (VList xs) = (xs \<noteq> [])"
| "truthy (VDict d) = (d \<noteq> [])"

fun value_of_key :: "py_key \<Rightarrow> py_value" where
  "value_of_key KNone = VNone"
| "value_of_key (KBool b) = VBool b"
| "value_of_key (KInt i) = VInt i"
| "value_of_key (KStr s) = VStr s"

text \<open>Hashing a value: lists and dictionaries are unhashable (\<open>TypeError\<close>).\<close>

fun py_hash_key :: "py_value \<Rightarrow> matter_error + py_key" where
  "py_hash_key VNone = Inr KNone"
| "py_hash_key (VBool b) = Inr (KBool b)"
| "py_hash_key (VInt i) = Inr (KInt i)"
| "py_hash_key (VStr s) = Inr (KStr s)"
| "py_hash_key (VList xs) = Inl TypeError"
| "py_hash_key (VDict d) = Inl TypeError"

text \<open>Iteration: a list yields its elements, a string its characters, a dictionary its keys.\<close>

fun py_iter :: "py_value \<Rightarrow> matter_error + py_value list" where
  "py_iter (VList xs) = Inr xs"
| "py_iter (VStr s) = Inr (map (\<lambda>c. VStr [c]) s)"
| "py_iter (VDict d) = Inr (map (\<lambda>kv. value_of_key (fst kv)) d)"
| "py_iter _ = Inl TypeError"

text \<open>
  \<open>set(x)\<close>: the hashable elements of \<open>x\<close> without duplicates. The list keeps the order of
  first occurrence; CPython's iteration order of a set is an implementation detail, and no
  theorem below depends on it.
\<close>

fun py_set_of_list :: "py_value list \<Rightarrow> py_key list \<Rightarrow> matter_error + py_key list" where
  "py_set_of_list [] acc = Inr acc"
| "py_set_of_list (x # xs) acc =
     (case py_hash_key x of
        Inl e \<Rightarrow> Inl e
      | Inr k \<Rightarrow> py_set_of_list xs (if list_ex (py_key_eq k) acc then acc else acc @ [k]))"

definition py_set :: "py_value \<Rightarrow> matter_error + py_key list" where
  "py_set x = (case py_iter x of Inl e \<Rightarrow> Inl e | Inr xs \<Rightarrow> py_set_of_list xs [])"

definition py_set_diff :: "py_key list \<Rightarrow> py_key list \<Rightarrow> py_key list" where
  "py_set_diff a b = filter (\<lambda>k. \<not> list_ex (py_key_eq k) b) a"

text \<open>Indexing \<open>x[k]\<close>; negative list indices count from the end.\<close>

definition py_index :: "'a list \<Rightarrow> int \<Rightarrow> matter_error + 'a" where
  "py_index xs i =
     (if 0 \<le> i \<and> i < int (length xs) then Inr (xs ! nat i)
      else if i < 0 \<and> - i \<le> int (length xs) then Inr (xs ! nat (int (length xs) + i))
      else Inl IndexError)"

fun py_getitem :: "py_value \<Rightarrow> py_key \<Rightarrow> matter_error + py_value" where
  "py_getitem (VDict d) k =
     (case find (\<lambda>kv. py_key_eq (fst kv) k) d of
        None \<Rightarrow> Inl KeyError
      | Some kv \<Rightarrow> Inr (snd kv))"
| "py_getitem (VList xs) (KInt i) = py_index xs i"
| "py_getitem (VList xs) (KBool b) = py_index xs (if b then 1 else 0)"
| "py_getitem (VStr s) (KInt i) = map_sum id (\<lambda>c. VStr [c]) (py_index s i)"
| "py_getitem (VStr s) (KBool b) = map_sum id (\<lambda>c. VStr [c]) (py_index s (if b then 1 else 0))"
| "py_getitem _ _ = Inl TypeError"

text \<open>Substring test and \<open>k in x\<close>.\<close>

fun is_infix :: "string \<Rightarrow> string \<Rightarrow> bool" where
  "is_infix t [] = (t = [])"
| "is_infix t (c # cs) = (take (length t) (c # cs) = t \<or> is_infix t cs)"

fun py_contains :: "py_key \<Rightarrow> py_value \<Rightarrow> matter_error + bool" where
  "py_contains k (VDict d) = Inr (list_ex (\<lambda>kv. py_key_eq (fst kv) k) d)"
| "py_contains k (VList xs) = Inr (list_ex (py_eq (value_of_key k)) xs)"
| "py_contains (KStr t) (VStr s) = Inr (is_infix t s)"
| "py_contains _ _ = Inl TypeError"

text \<open>Decimal rendering of an integer and \<open>str(k)\<close> as used in an f-string.\<close>

function show_nat :: "nat \<Rightarrow> string" where
  "show_nat n =
     (if n < 10 then [''0123456789'' ! n]
      else show_nat (n div 10) @ [''0123456789'' ! (n mod 10)])"
  by pat_completeness auto
termination
  by (relation "measure id") auto

definition show_int :: "int \<Rightarrow> string" where
  "show_int i = (if i < 0 then CHR ''-'' # show_nat (nat (- i)) else show_nat (nat i))"

fun py_str :: "py_key \<Rightarrow> string" where
  "py_str KNone = ''None''"
| "py_str (KBool b) = (if b then ''True'' else ''False'')"
| "py_str (KInt i) = show_int i"
| "py_str (KStr s) = s"

definition startswith :: "string \<Rightarrow> string \<Rightarrow> bool" where
  "startswith key p = (take (length p) key = p)"

text \<open>
  A dictionary with string keys is an association list in insertion order:
  \<open>d.get(k)\<close> gives \<open>None\<close> for a missing key, \<open>d[k] = v\<close> keeps the position of an
  existing key and appends a new one, \<open>d.update(e)\<close> assigns the entries of \<open>e\<close> in order.
\<close>

type_synonym attr_dict = "(string \<times> py_value) list"

definition dict_get :: "attr_dict \<Rightarrow> string \<Rightarrow> py_value" where
  "dict_get d k = (case map_of d k of None \<Rightarrow> VNone | Some v \<Rightarrow> v)"

definition dict_get_default :: "attr_dict \<Rightarrow> string \<Rightarrow> py_value \<Rightarrow> py_value" where
  "dict_get_default d k dflt = (case map_of d k of None \<Rightarrow> dflt | Some v \<Rightarrow> v)"

definition dict_set :: "attr_dict \<Rightarrow> string \<Rightarrow> py_value \<Rightarrow> attr_dict" where
  "dict_set d k v = AList.update k v d"

definition dict_update :: "attr_dict \<Rightarrow> attr_dict \<Rightarrow> attr_dict" where
  "dict_update d e = foldl (\<lambda>m kv. dict_set m (fst kv) (snd kv)) d e"

section \<open>Data model\<close>

type_synonym addr = nat

text \<open>
  \<open>MatterNodeData\<close> objects are mutable and shared: the registry \<open>_nodes\<close>, the closures
  of a subscription and the events all hold references to them. A node object lives at an
  address of the \<open>heap\<close>; timestamps are integers.
\<close>

record MatterNodeData =
  node_id :: int
  date_commissioned :: int
  last_interview :: int
  interview_version :: int
  available :: bool
  is_bridge :: bool
  attributes :: attr_dict
  attribute_subscriptions :: "string list"

record CommissioningParameters =
  setup_pin_code :: int
  setup_manual_code :: string
  setup_qr_code :: string

datatype event =
    NODE_ADDED addr
  | NODE_UPDATED addr
  | NODE_REMOVED int
  | ATTRIBUTE_UPDATED int string py_value
  | ENDPOINT_ADDED int py_key
  | ENDPOINT_REMOVED int py_key

datatype sdk_call =
    CommissionWithCode int string bool
  | CommissionOnNetwork int int int py_value
  | CommissionIp int int string
  | ReadAttributeAll int
  | ReadAttributeSubscribe int int int
  | Read int "(int option \<times> int option \<times> int option) list" bool
  | OpenCommissioningWindow int int int int int
  | ShutdownSubscription int
  | FindOrEstablishCaseSession int
  | GetAddressAndPort int

datatype task =
    TaskInterviewNode int
  | TaskHandleEndpointsAdded int "py_key list"
  | TaskNodeOffline int

datatype timer_callback =
    ClearCommissioningParams int
  | LogNodeLongSetup int
  | RunCustomAttributesPoller

text \<open>Everything the controller does to its collaborators, in the order it does it.\<close>

datatype effect =
    Sdk sdk_call
  | Sleep int
  | SignalEvent event
  | StorageSetLastNodeId int bool
  | StorageSetNode int addr bool
  | CreateTask task
  | CallLater nat int timer_callback
  | CancelTimer nat
  | SetSubscriptionCallbacks int addr
  | AcquireSetupThrottle
  | ReleaseSetupThrottle
  | MdnsRequest int
  | PingIp string int int

record controller =
  storage_last_node_id :: "int option"
  heap :: "addr \<Rightarrow> MatterNodeData"
  next_addr :: addr
  nodes :: "(int \<times> addr) list"
  nodes_in_setup :: "int set"
  known_commissioning_params :: "int \<rightharpoonup> CommissioningParameters"
  last_subscription_attempt :: "int \<rightharpoonup> int"
  last_known_ip_addresses :: "int \<rightharpoonup> string list"
  node_last_seen :: "int \<rightharpoonup> int"
  polled_attributes :: "(int \<times> string list) list"
  compressed_fabric_id :: "int option"
  custom_attribute_poller_timer :: "nat option"
  next_timer :: nat
  tick :: nat
  trace :: "effect list"

text \<open>
  The collaborators (Matter SDK wrapper, mDNS, ping, clock, random source) and the helpers
  of the repository that are not part of this module are parameters. An answer of a
  collaborator may depend on when it is asked: \<open>tick\<close> counts the questions asked so far.
  A read result is given as the dictionary that \<open>parse_attributes_from_read_result\<close>
  decodes from it.
\<close>

record environment =
  sdk_commission :: "nat \<Rightarrow> matter_error + bool option"
  sdk_read_attribute :: "nat \<Rightarrow> matter_error + attr_dict"
  sdk_subscribe :: "nat \<Rightarrow> matter_error + attr_dict"
  sdk_read :: "nat \<Rightarrow> matter_error + attr_dict"
  sdk_open_commissioning_window :: "nat \<Rightarrow> matter_error + CommissioningParameters"
  sdk_shutdown_subscription :: "nat \<Rightarrow> matter_error option"
  sdk_find_or_establish_case_session :: "nat \<Rightarrow> matter_error option"
  sdk_get_address_and_port :: "nat \<Rightarrow> (string \<times> int) option"
  mdns_request :: "nat \<Rightarrow> string list option"
  ping_ip :: "nat \<Rightarrow> bool"
  clock :: "nat \<Rightarrow> int"
  random_source :: "nat \<Rightarrow> nat"
  json_loads :: "string \<Rightarrow> py_value option"
  dataclass_from_dict :: "py_value \<Rightarrow> matter_error + MatterNodeData"
  parse_attribute_path :: "string \<Rightarrow> matter_error + (int option \<times> int option \<times> int option)"
  check_polled_attributes :: "MatterNodeData \<Rightarrow> string list"
  scope_ipv6_lla :: "string \<Rightarrow> string"
  DATA_MODEL_SCHEMA_VERSION :: int

type_synonym 'a result = "(matter_error + 'a) \<times> controller"

section \<open>Constants\<close>

definition MAX_COMMISSION_RETRIES :: int where "MAX_COMMISSION_RETRIES = 3"
definition NODE_RESUBSCRIBE_ATTEMPTS_UNAVAILABLE :: int where
  "NODE_RESUBSCRIBE_ATTEMPTS_UNAVAILABLE = 3"
definition NODE_RESUBSCRIBE_TIMEOUT_OFFLINE :: int where
  "NODE_RESUBSCRIBE_TIMEOUT_OFFLINE = 30 * 60 * 1000"
definition NODE_SUBSCRIPTION_CEILING_WIFI :: int where "NODE_SUBSCRIPTION_CEILING_WIFI = 60"
definition NODE_SUBSCRIPTION_CEILING_THREAD :: int where "NODE_SUBSCRIPTION_CEILING_THREAD = 60"
definition NODE_SUBSCRIPTION_CEILING_BATTERY_POWERED :: int where
  "NODE_SUBSCRIPTION_CEILING_BATTERY_POWERED = 600"
definition NODE_PING_TIMEOUT :: int where "NODE_PING_TIMEOUT = 10"
definition NODE_PING_TIMEOUT_BATTERY_POWERED :: int where "NODE_PING_TIMEOUT_BATTERY_POWERED = 60"
definition CUSTOM_ATTRIBUTES_POLLER_INTERVAL :: int where "CUSTOM_ATTRIBUTES_POLLER_INTERVAL = 30"
definition TEST_NODE_START :: int where "TEST_NODE_START = 900000"

text \<open>
  The three attribute paths are built from cluster and attribute ids of the Matter data
  model: ThreadNetworkDiagnostics (53) RoutingRole (1), Descriptor (29) PartsList (3),
  BasicInformation (40) SoftwareVersion (9); \<open>kSleepyEndDevice\<close> is routing role 2.
\<close>

definition ROUTING_ROLE_ATTRIBUTE_PATH :: string where
  "ROUTING_ROLE_ATTRIBUTE_PATH = ''0/53/1''"
definition DESCRIPTOR_PARTS_LIST_ATTRIBUTE_PATH :: string where
  "DESCRIPTOR_PARTS_LIST_ATTRIBUTE_PATH = ''0/29/3''"
definition BASIC_INFORMATION_SOFTWARE_VERSION_ATTRIBUTE_PATH :: string where
  "BASIC_INFORMATION_SOFTWARE_VERSION_ATTRIBUTE_PATH = ''0/40/9''"
definition kSleepyEndDevice :: py_value where "kSleepyEndDevice = VInt 2"

section \<open>Effects and small helpers\<close>

definition log_effect :: "effect \<Rightarrow> controller \<Rightarrow> controller" where
  "log_effect e s = s\<lparr>trace := trace s @ [e]\<rparr>"

definition ask :: "controller \<Rightarrow> controller" where
  "ask s = s\<lparr>tick := tick s + 1\<rparr>"

definition signal_event :: "event \<Rightarrow> controller \<Rightarrow> controller" where
  "signal_event ev s = log_effect (SignalEvent ev) s"

definition sleep :: "int \<Rightarrow> controller \<Rightarrow> controller" where
  "sleep n s = log_effect (Sleep n) s"

definition create_task :: "task \<Rightarrow> controller \<Rightarrow> controller" where
  "create_task t s = log_effect (CreateTask t) s"

definition call_later :: "int \<Rightarrow> timer_callback \<Rightarrow> controller \<Rightarrow> nat \<times> controller" where
  "call_later delay cb s =
     (next_timer s, log_effect (CallLater (next_timer s) delay cb) (s\<lparr>next_timer := next_timer s + 1\<rparr>))"

definition cancel_timer :: "nat \<Rightarrow> controller \<Rightarrow> controller" where
  "cancel_timer h s = log_effect (CancelTimer h) s"

definition update_node :: "addr \<Rightarrow> (MatterNodeData \<Rightarrow> MatterNodeData) \<Rightarrow> controller \<Rightarrow> controller" where
  "update_node a f s = s\<lparr>heap := (heap s)(a := f (heap s a))\<rparr>"

definition new_node :: "MatterNodeData \<Rightarrow> controller \<Rightarrow> addr \<times> controller" where
  "new_node n s = (next_addr s, s\<lparr>heap := (heap s)(next_addr s := n), next_addr := next_addr s + 1\<rparr>)"

section \<open>Node registry and id allocation\<close>

definition get_node :: "int \<Rightarrow> controller \<Rightarrow> addr result" where
  "get_node nid s =
     (case map_of (nodes s) nid of
        Some a \<Rightarrow> (Inr a, s)
      | None \<Rightarrow> (Inl NodeNotExists, s))"

text \<open>\<open>self.server.storage.get(DATA_KEY_LAST_NODE_ID, 0)\<close>\<close>

definition stored_last_node_id :: "controller \<Rightarrow> int" where
  "stored_last_node_id s = (case storage_last_node_id s of None \<Rightarrow> 0 | Some v \<Rightarrow> v)"

definition get_next_node_id :: "controller \<Rightarrow> int \<times> controller" where
  "get_next_node_id s =
     (let next_node_id = stored_last_node_id s + 1
      in (next_node_id,
          log_effect (StorageSetLastNodeId next_node_id True)
            (s\<lparr>storage_last_node_id := Some next_node_id\<rparr>)))"

definition write_node_state :: "int \<Rightarrow> bool \<Rightarrow> controller \<Rightarrow> controller" where
  "write_node_state nid force s =
     (if map_of (nodes s) nid = None then s
      else if nid \<ge> TEST_NODE_START then s
      else log_effect (StorageSetNode nid (the (map_of (nodes s) nid)) force) s)"

section \<open>Interview\<close>

text \<open>\<open>any(x[0] == 14 for x in attr_data)\<close>, stopping at the first hit or the first error.\<close>

fun any_first_is_14 :: "py_value list \<Rightarrow> matter_error + bool" where
  "any_first_is_14 [] = Inr False"
| "any_first_is_14 (x # xs) =
     (case py_getitem x (KInt 0) of
        Inl e \<Rightarrow> Inl e
      | Inr v \<Rightarrow> if py_eq v (VInt 14) then Inr True else any_first_is_14 xs)"

definition interview_is_bridge :: "attr_dict \<Rightarrow> matter_error + bool" where
  "interview_is_bridge attrs =
     (let attr_data = dict_get attrs ''1/29/0''
      in if truthy attr_data then
           (case py_iter attr_data of
              Inl e \<Rightarrow> Inl e
            | Inr xs \<Rightarrow> any_first_is_14 xs)
         else Inr False)"

definition interview_node :: "environment \<Rightarrow> int \<Rightarrow> controller \<Rightarrow> unit result" where
  "interview_node env nid s =
     (if nid \<ge> TEST_NODE_START then
        (case map_of (nodes s) nid of
           None \<Rightarrow> (Inl KeyError, s)
         | Some a \<Rightarrow> (Inr (), signal_event (NODE_UPDATED a) s))
      else
        (let s1 = ask (log_effect (Sdk (ReadAttributeAll nid)) s)
         in case sdk_read_attribute env (tick s) of
              Inl e \<Rightarrow> (Inl (if e = ChipStackError then NodeInterviewFailed else e), s1)
            | Inr attrs \<Rightarrow>
                (let existing_info = map_of (nodes s1) nid;
                     is_new_node = (existing_info = None);
                     s2 = (case existing_info of None \<Rightarrow> ask s1 | Some a \<Rightarrow> s1);
                     s3 = ask s2;
                     node = \<lparr>node_id = nid,
                       date_commissioned =
                         (case existing_info of
                            None \<Rightarrow> clock env (tick s1)
                          | Some a \<Rightarrow> date_commissioned (heap s1 a)),
                       last_interview = clock env (tick s2),
                       interview_version = DATA_MODEL_SCHEMA_VERSION env,
                       available =
                         (case existing_info of None \<Rightarrow> False | Some a \<Rightarrow> available (heap s1 a)),
                       is_bridge = False,
                       attributes = attrs,
                       attribute_subscriptions =
                         (case existing_info of
                            None \<Rightarrow> []
                          | Some a \<Rightarrow> attribute_subscriptions (heap s1 a))\<rparr>
                 in case interview_is_bridge attrs of
                      Inl e \<Rightarrow> (Inl e, s3)
                    | Inr b \<Rightarrow>
                        (let (a, s4) = new_node (node\<lparr>is_bridge := b\<rparr>) s3;
                             s5 = s4\<lparr>nodes := AList.update nid a (nodes s4)\<rparr>;
                             s6 = write_node_state nid True s5
                         in (Inr (),
                             signal_event (if is_new_node then NODE_ADDED a else NODE_UPDATED a) s6)))))"

section \<open>Commissioning\<close>

text \<open>
  The commission loop of \<open>commission_with_code\<close> and \<open>commission_on_network\<close>; the two
  copies differ only in the adapter call, which is the parameter \<open>call\<close>.
\<close>

function commission_loop :: "environment \<Rightarrow> sdk_call \<Rightarrow> int \<Rightarrow> controller \<Rightarrow> unit result" where
  "commission_loop env call attempts s =
     (if attempts \<le> MAX_COMMISSION_RETRIES then
        (case sdk_commission env (tick s) of
           Inl e \<Rightarrow> (Inl e, ask (log_effect (Sdk call) s))
         | Inr result \<Rightarrow>
             if result = Some True then (Inr (), ask (log_effect (Sdk call) s))
             else if attempts + 1 \<ge> MAX_COMMISSION_RETRIES
             then (Inl NodeCommissionFailed, ask (log_effect (Sdk call) s))
             else commission_loop env call (attempts + 1)
                    (sleep 5 (ask (log_effect (Sdk call) s))))
      else (Inr (), s))"
  by pat_completeness auto
termination
  by (relation "measure (\<lambda>(env, call, attempts, s). nat (MAX_COMMISSION_RETRIES + 1 - attempts))")
     auto

declare commission_loop.simps [simp del]

text \<open>
  The interview loop after a successful commissioning. \<open>retries\<close> starts at 3 and only
  counts down to 0, so it is a natural number; \<open>caught\<close> lists the exceptions of the
  \<open>except\<close> clause.
\<close>

fun interview_loop ::
  "environment \<Rightarrow> matter_error list \<Rightarrow> int \<Rightarrow> nat \<Rightarrow> controller \<Rightarrow> unit result" where
  "interview_loop env caught nid retries s =
     (if retries \<noteq> 0 then
        (case interview_node env nid s of
           (Inl err, s1) \<Rightarrow>
             if err \<in> set caught then
               (if retries \<le> 0 then (Inl err, s1)
                else interview_loop env caught nid (retries - 1) (sleep 5 s1))
             else (Inl err, s1)
         | (Inr u, s1) \<Rightarrow> (Inr (), s1))
      else (Inr (), s))"

declare interview_loop.simps [simp del]

section \<open>Subscriptions\<close>

text \<open>
  \<open>_subscribe_node\<close>. Its callbacks are closures over \<open>node_id\<close> and over the node object
  \<open>node\<close> that the registry held when the subscription was set up; they are modelled below
  as functions of that pair.
\<close>

definition subscribe_node :: "environment \<Rightarrow> int \<Rightarrow> controller \<Rightarrow> unit result" where
  "subscribe_node env nid s =
     (case map_of (nodes s) nid of
        None \<Rightarrow> (Inl NodeNotExists, s)
      | Some node \<Rightarrow>
          (let s1 = ask (log_effect (Sdk (ShutdownSubscription nid)) s)
           in case sdk_shutdown_subscription env (tick s) of
                Some e \<Rightarrow> (Inl e, s1)
              | None \<Rightarrow>
                  (let interval_floor = 0;
                       routing_role = dict_get (attributes (heap s1 node)) ROUTING_ROLE_ATTRIBUTE_PATH;
                       interval_ceiling =
                         (if routing_role = VNone then NODE_SUBSCRIPTION_CEILING_WIFI
                          else if py_eq routing_role kSleepyEndDevice
                          then NODE_SUBSCRIPTION_CEILING_BATTERY_POWERED
                          else NODE_SUBSCRIPTION_CEILING_THREAD);
                       s2 = s1\<lparr>last_subscription_attempt := (last_subscription_attempt s1)(nid \<mapsto> 0)\<rparr>;
                       s3 = ask (log_effect
                              (Sdk (ReadAttributeSubscribe nid interval_floor interval_ceiling)) s2)
                   in case sdk_subscribe env (tick s2) of
                        Inl e \<Rightarrow> (Inl e, s3)
                      | Inr tlv_attributes \<Rightarrow>
                          (let s4 = log_effect (SetSubscriptionCallbacks nid node) s3;
                               s5 = update_node node (\<lambda>n. n\<lparr>available := True\<rparr>) s4;
                               s6 = update_node node
                                      (\<lambda>n. n\<lparr>attributes := dict_update (attributes n) tlv_attributes\<rparr>) s5;
                               s7 = ask (s6\<lparr>node_last_seen :=
                                      (node_last_seen s6)(nid \<mapsto> clock env (tick s6))\<rparr>)
                           in (Inr (), signal_event (NODE_UPDATED node) s7)))))"

text \<open>\<open>_handle_endpoints_removed\<close>: works on the node object the registry holds now.\<close>

fun handle_endpoints_removed_loop :: "int \<Rightarrow> addr \<Rightarrow> py_key list \<Rightarrow> controller \<Rightarrow> controller" where
  "handle_endpoints_removed_loop nid node [] s = s"
| "handle_endpoints_removed_loop nid node (endpoint_id # endpoints) s =
     handle_endpoints_removed_loop nid node endpoints
       (signal_event (ENDPOINT_REMOVED nid endpoint_id)
          (update_node node
             (\<lambda>n. n\<lparr>attributes :=
                filter (\<lambda>kv. \<not> startswith (fst kv) (py_str endpoint_id @ ''/'')) (attributes n)\<rparr>)
             s))"

definition handle_endpoints_removed :: "int \<Rightarrow> py_key list \<Rightarrow> controller \<Rightarrow> unit result" where
  "handle_endpoints_removed nid endpoints s =
     (case map_of (nodes s) nid of
        None \<Rightarrow> (Inl KeyError, s)
      | Some node \<Rightarrow>
          (Inr (), write_node_state nid False (handle_endpoints_removed_loop nid node endpoints s)))"

text \<open>The callback \<open>attribute_updated(path, old_value, new_value)\<close>; \<open>path\<close> is \<open>str(path)\<close>.\<close>

definition attribute_updated ::
  "int \<Rightarrow> addr \<Rightarrow> string \<Rightarrow> py_value \<Rightarrow> py_value \<Rightarrow> controller \<Rightarrow> unit result" where
  "attribute_updated nid node path old_value new_value s =
     (if is_bridge (heap s node) \<and> path = DESCRIPTOR_PARTS_LIST_ATTRIBUTE_PATH then
        (case py_set (if truthy old_value then old_value else VList []) of
           Inl e \<Rightarrow> (Inl e, s)
         | Inr old_set \<Rightarrow>
             (case py_set new_value of
                Inl e \<Rightarrow> (Inl e, s)
              | Inr new_set \<Rightarrow>
                  (let endpoints_removed = py_set_diff old_set new_set;
                       endpoints_added = py_set_diff new_set old_set
                   in case (if endpoints_removed \<noteq> []
                            then handle_endpoints_removed nid endpoints_removed s
                            else (Inr (), s)) of
                        (Inl e, s1) \<Rightarrow> (Inl e, s1)
                      | (Inr u, s1) \<Rightarrow>
                          (Inr (),
                           if endpoints_added \<noteq> []
                           then create_task (TaskHandleEndpointsAdded nid endpoints_added) s1
                           else s1))))
      else
        (let s1 = (if path = BASIC_INFORMATION_SOFTWARE_VERSION_ATTRIBUTE_PATH
                      \<and> \<not> py_eq new_value old_value
                   then create_task (TaskInterviewNode nid) s
                   else s);
             s2 = update_node node (\<lambda>n. n\<lparr>attributes := dict_set (attributes n) path new_value\<rparr>) s1;
             s3 = write_node_state nid False s2
         in (Inr (), signal_event (ATTRIBUTE_UPDATED nid path new_value) s3)))"

text \<open>The callback \<open>resubscription_attempted\<close>.\<close>

definition resubscription_attempted ::
  "int \<Rightarrow> addr \<Rightarrow> int \<Rightarrow> int \<Rightarrow> controller \<Rightarrow> unit result" where
  "resubscription_attempted nid node terminationError nextResubscribeIntervalMsec s =
     (case last_subscription_attempt s nid of
        None \<Rightarrow> (Inl KeyError, s)
      | Some previous \<Rightarrow>
          (let resubscription_attempt = previous + 1;
               s1 = s\<lparr>last_subscription_attempt :=
                      (last_subscription_attempt s)(nid \<mapsto> resubscription_attempt)\<rparr>;
               s2 = (if available (heap s1 node)
                        \<and> resubscription_attempt \<ge> NODE_RESUBSCRIBE_ATTEMPTS_UNAVAILABLE
                     then signal_event (NODE_UPDATED node)
                            (update_node node (\<lambda>n. n\<lparr>available := False\<rparr>) s1)
                     else s1);
               s3 = (if \<not> available (heap s2 node)
                        \<and> nextResubscribeIntervalMsec > NODE_RESUBSCRIBE_TIMEOUT_OFFLINE
                     then create_task (TaskNodeOffline nid) s2
                     else s2)
           in (Inr (), s3)))"

text \<open>The callback \<open>resubscription_succeeded\<close>.\<close>

definition resubscription_succeeded :: "environment \<Rightarrow> int \<Rightarrow> addr \<Rightarrow> controller \<Rightarrow> controller" where
  "resubscription_succeeded env nid node s =
     (let s1 = ask (s\<lparr>node_last_seen := (node_last_seen s)(nid \<mapsto> clock env (tick s))\<rparr>);
          s2 = s1\<lparr>last_subscription_attempt := (last_subscription_attempt s1)(nid \<mapsto> 0)\<rparr>
      in if \<not> available (heap s2 node)
         then signal_event (NODE_UPDATED node) (update_node node (\<lambda>n. n\<lparr>available := True\<rparr>) s2)
         else s2)"

definition node_offline :: "environment \<Rightarrow> int \<Rightarrow> controller \<Rightarrow> unit result" where
  "node_offline env nid s =
     (let s1 = ask (log_effect (Sdk (ShutdownSubscription nid)) s)
      in case sdk_shutdown_subscription env (tick s) of
           Some e \<Rightarrow> (Inl e, s1)
         | None \<Rightarrow>
             (case map_of (nodes s1) nid of
                None \<Rightarrow> (Inl KeyError, s1)
              | Some node \<Rightarrow>
                  if \<not> available (heap s1 node) then (Inr (), s1)
                  else (Inr (), signal_event (NODE_UPDATED node)
                                  (update_node node (\<lambda>n. n\<lparr>available := False\<rparr>) s1))))"

text \<open>A run of consecutive \<open>resubscription_attempted\<close> callbacks of one subscription.\<close>

fun resubscription_attempts ::
  "int \<Rightarrow> addr \<Rightarrow> (int \<times> int) list \<Rightarrow> controller \<Rightarrow> unit result" where
  "resubscription_attempts nid node [] s = (Inr (), s)"
| "resubscription_attempts nid node (cb # cbs) s =
     (case resubscription_attempted nid node (fst cb) (snd cb) s of
        (Inl e, s1) \<Rightarrow> (Inl e, s1)
      | (Inr u, s1) \<Rightarrow> resubscription_attempts nid node cbs s1)"

text \<open>The events signalled in a trace.\<close>

fun signalled :: "effect list \<Rightarrow> event list" where
  "signalled [] = []"
| "signalled (SignalEvent ev # es) = ev # signalled es"
| "signalled (e # es) = signalled es"

section \<open>Node setup\<close>

definition schedule_custom_attributes_poller :: "controller \<Rightarrow> controller" where
  "schedule_custom_attributes_poller s =
     (let s1 = (case custom_attribute_poller_timer s of
                  Some existing \<Rightarrow> cancel_timer existing s
                | None \<Rightarrow> s)
      in if polled_attributes s1 = [] then s1
         else (let (h, s2) = call_later CUSTOM_ATTRIBUTES_POLLER_INTERVAL RunCustomAttributesPoller s1
               in s2\<lparr>custom_attribute_poller_timer := Some h\<rparr>))"

text \<open>
  \<open>_setup_node\<close> in three parts: the guards up to \<open>self._nodes_in_setup.add(node_id)\<close>
  (\<open>setup_node_begin\<close>, which runs without suspension), the \<open>try\<close> block
  (\<open>setup_node_try\<close>) and the whole \<open>async with\<close> block with its \<open>finally\<close>
  (\<open>setup_node_run\<close>). \<open>node_data\<close> is the object the registry held at the start.
\<close>

definition setup_node_begin :: "int \<Rightarrow> controller \<Rightarrow> (addr option) result" where
  "setup_node_begin nid s =
     (if map_of (nodes s) nid = None then (Inl NodeNotExists, s)
      else if nid \<in> nodes_in_setup s then (Inr None, s)
      else (Inr (map_of (nodes s) nid), s\<lparr>nodes_in_setup := insert nid (nodes_in_setup s)\<rparr>))"

definition setup_node_subscribe :: "environment \<Rightarrow> int \<Rightarrow> addr \<Rightarrow> controller \<Rightarrow> unit result" where
  "setup_node_subscribe env nid node_data s =
     (case subscribe_node env nid s of
        (Inl e, s1) \<Rightarrow> if e = ChipStackError then (Inr (), s1) else (Inl e, s1)
      | (Inr u, s1) \<Rightarrow>
          (let polled = check_polled_attributes env (heap s1 node_data)
           in if polled \<noteq> []
              then (Inr (), schedule_custom_attributes_poller
                              (s1\<lparr>polled_attributes := AList.update nid polled (polled_attributes s1)\<rparr>))
              else (Inr (), s1)))"

definition setup_node_try :: "environment \<Rightarrow> int \<Rightarrow> addr \<Rightarrow> controller \<Rightarrow> unit result" where
  "setup_node_try env nid node_data s =
     (let s1 = ask (log_effect (Sdk (FindOrEstablishCaseSession nid)) s)
      in case sdk_find_or_establish_case_session env (tick s) of
           Some e \<Rightarrow> if e = NodeNotResolving then (Inr (), s1) else (Inl e, s1)
         | None \<Rightarrow>
             if attributes (heap s1 node_data) = []
                \<or> interview_version (heap s1 node_data) \<noteq> DATA_MODEL_SCHEMA_VERSION env
             then (case interview_node env nid s1 of
                     (Inl e, s2) \<Rightarrow> if e = NodeInterviewFailed then (Inr (), s2) else (Inl e, s2)
                   | (Inr u, s2) \<Rightarrow> setup_node_subscribe env nid node_data s2)
             else setup_node_subscribe env nid node_data s1)"

definition setup_node_run :: "environment \<Rightarrow> int \<Rightarrow> addr \<Rightarrow> controller \<Rightarrow> unit result" where
  "setup_node_run env nid node_data s =
     (let s1 = ask (log_effect AcquireSetupThrottle s);
          (h, s2) = call_later (15 * 60) (LogNodeLongSetup nid) s1;
          (r, s3) = setup_node_try env nid node_data s2;
          s4 = cancel_timer h s3;
          s5 = s4\<lparr>nodes_in_setup := nodes_in_setup s4 - {nid}\<rparr>
      in (r, log_effect ReleaseSetupThrottle s5))"

definition setup_node :: "environment \<Rightarrow> int \<Rightarrow> controller \<Rightarrow> unit result" where
  "setup_node env nid s =
     (case setup_node_begin nid s of
        (Inl e, s1) \<Rightarrow> (Inl e, s1)
      | (Inr None, s1) \<Rightarrow> (Inr (), s1)
      | (Inr (Some node_data), s1) \<Rightarrow> setup_node_run env nid node_data s1)"



section \<open>Commissioning commands\<close>

definition commission_with_code ::
  "environment \<Rightarrow> string \<Rightarrow> bool \<Rightarrow> controller \<Rightarrow> addr result" where
  "commission_with_code env code network_only s =
     (let (nid, s1) = get_next_node_id s
      in case commission_loop env (CommissionWithCode nid code network_only) 0 s1 of
           (Inl e, s2) \<Rightarrow> (Inl e, s2)
         | (Inr u, s2) \<Rightarrow>
             (case interview_loop env [NodeNotResolving, NodeInterviewFailed] nid 3 s2 of
                (Inl e, s3) \<Rightarrow> (Inl e, s3)
              | (Inr u, s3) \<Rightarrow>
                  (case setup_node env nid s3 of
                     (Inl e, s4) \<Rightarrow> (Inl e, s4)
                   | (Inr u, s4) \<Rightarrow> get_node nid s4)))"

definition commission_on_network ::
  "environment \<Rightarrow> int \<Rightarrow> int \<Rightarrow> py_value \<Rightarrow> string option \<Rightarrow> controller \<Rightarrow> addr result" where
  "commission_on_network env pin filter_type filter_arg ip_addr s =
     (let (nid, s1) = get_next_node_id s;
          call = (case ip_addr of
                    None \<Rightarrow> CommissionOnNetwork nid pin filter_type filter_arg
                  | Some ip \<Rightarrow> CommissionIp nid pin (scope_ipv6_lla env ip))
      in case commission_loop env call 0 s1 of
           (Inl e, s2) \<Rightarrow> (Inl e, s2)
         | (Inr u, s2) \<Rightarrow>
             (case interview_loop env [NodeInterviewFailed] nid 3 s2 of
                (Inl e, s3) \<Rightarrow> (Inl e, s3)
              | (Inr u, s3) \<Rightarrow>
                  (case setup_node env nid s3 of
                     (Inl e, s4) \<Rightarrow> (Inl e, s4)
                   | (Inr u, s4) \<Rightarrow> get_node nid s4)))"




section \<open>Reading attributes\<close>




section \<open>Test nodes\<close>

text \<open>
  \<open>max(*args)\<close> on integers: with a single argument \<open>max\<close> takes it for an iterable, and an
  \<open>int\<close> is not one.
\<close>

fun py_max_args :: "int list \<Rightarrow> matter_error + int" where
  "py_max_args [] = Inl TypeError"
| "py_max_args [x] = Inl TypeError"
| "py_max_args (x # y # ys) = Inr (fold max (y # ys) x)"

fun import_test_node_loop ::
  "environment \<Rightarrow> py_value list \<Rightarrow> int \<Rightarrow> controller \<Rightarrow> unit result" where
  "import_test_node_loop env [] next_test_node_id s = (Inr (), s)"
| "import_test_node_loop env (node_dict # rest) next_test_node_id s =
     (case dataclass_from_dict env node_dict of
        Inl e \<Rightarrow> (Inl e, s)
      | Inr node \<Rightarrow>
          (let (a, s1) = new_node (node\<lparr>node_id := next_test_node_id\<rparr>) s;
               s2 = s1\<lparr>nodes := AList.update next_test_node_id a (nodes s1)\<rparr>
           in import_test_node_loop env rest (next_test_node_id + 1)
                (signal_event (NODE_ADDED a) s2)))"

definition dump_nodes_of :: "py_value \<Rightarrow> matter_error + py_value" where
  "dump_nodes_of dump_data =
     (case py_getitem dump_data (KStr ''data'') of
        Inl e \<Rightarrow> Inl e
      | Inr data \<Rightarrow>
          (case py_contains (KStr ''node'') data of
             Inl e \<Rightarrow> Inl e
           | Inr has_node \<Rightarrow>
               if has_node then
                 (case py_getitem data (KStr ''node'') of
                    Inl e \<Rightarrow> Inl e
                  | Inr n \<Rightarrow> Inr (VList [n]))
               else
                 (case py_getitem data (KStr ''server'') of
                    Inl e \<Rightarrow> Inl e
                  | Inr server \<Rightarrow> py_getitem server (KStr ''nodes''))))"

definition import_test_node :: "environment \<Rightarrow> string \<Rightarrow> controller \<Rightarrow> unit result" where
  "import_test_node env dump s =
     (case json_loads env dump of
        None \<Rightarrow> (Inl InvalidArguments, s)
      | Some dump_data \<Rightarrow>
          (case dump_nodes_of dump_data of
             Inl e \<Rightarrow> (Inl e, s)
           | Inr dump_nodes \<Rightarrow>
               (case py_max_args (map fst (nodes s) @ [TEST_NODE_START]) of
                  Inl e \<Rightarrow> (Inl e, s)
                | Inr m \<Rightarrow>
                    (case py_iter dump_nodes of
                       Inl e \<Rightarrow> (Inl e, s)
                     | Inr node_dicts \<Rightarrow> import_test_node_loop env node_dicts (m + 1) s))))"

section \<open>Addresses and ping\<close>

definition strip_scope :: "string \<Rightarrow> string" where
  "strip_scope x = takeWhile (\<lambda>c. c \<noteq> CHR ''%'') x"

text \<open>
  \<open>get_node_ip_addresses\<close>, for a started controller (the mDNS browser exists). Formatting
  the mDNS name fails with \<open>TypeError\<close> while the compressed fabric id is still \<open>None\<close>.
\<close>

definition get_node_ip_addresses ::
  "environment \<Rightarrow> int \<Rightarrow> bool \<Rightarrow> bool \<Rightarrow> controller \<Rightarrow> (string list) result" where
  "get_node_ip_addresses env nid prefer_cache scoped s =
     (let cached_info = (case last_known_ip_addresses s nid of None \<Rightarrow> [] | Some l \<Rightarrow> l)
      in if prefer_cache \<and> cached_info \<noteq> []
         then (Inr (if scoped then cached_info else map strip_scope cached_info), s)
         else
           (case map_of (nodes s) nid of
              None \<Rightarrow> (Inl NodeNotExists, s)
            | Some node \<Rightarrow>
                (case compressed_fabric_id s of
                   None \<Rightarrow> (Inl TypeError, s)
                 | Some fabric \<Rightarrow>
                     (let s1 = ask (log_effect (MdnsRequest nid) s)
                      in case mdns_request env (tick s) of
                           None \<Rightarrow> (Inr cached_info, s1)
                         | Some ip_adresses \<Rightarrow>
                             (Inr (if scoped then ip_adresses else map strip_scope ip_adresses),
                              s1\<lparr>last_known_ip_addresses :=
                                   (last_known_ip_addresses s1)(nid \<mapsto> ip_adresses)\<rparr>)))))"

text \<open>
  The pings of \<open>ping_node\<close> run concurrently under \<open>asyncio.gather\<close>; the model runs them in
  the order of the address list.
\<close>

fun do_pings ::
  "environment \<Rightarrow> int \<Rightarrow> int \<Rightarrow> string list \<Rightarrow> (string \<times> bool) list \<Rightarrow> controller
     \<Rightarrow> (string \<times> bool) list \<times> controller" where
  "do_pings env timeout attempts [] result s = (result, s)"
| "do_pings env timeout attempts (ip_address # rest) result s =
     do_pings env timeout attempts rest
       (AList.update (strip_scope ip_address) (ping_ip env (tick s)) result)
       (ask (log_effect (PingIp ip_address timeout attempts) s))"

definition ping_node ::
  "environment \<Rightarrow> int \<Rightarrow> int \<Rightarrow> controller \<Rightarrow> ((string \<times> bool) list) result" where
  "ping_node env nid attempts s =
     (if nid \<ge> TEST_NODE_START
      then (Inr [(''0.0.0.0'', True), (''0000:1111:2222:3333:4444'', True)], s)
      else
        (case map_of (nodes s) nid of
           None \<Rightarrow> (Inl NodeNotExists, s)
         | Some node \<Rightarrow>
             (let battery_powered =
                    py_eq (dict_get_default (attributes (heap s node)) ROUTING_ROLE_ATTRIBUTE_PATH (VInt 0))
                      kSleepyEndDevice;
                  timeout = (if battery_powered then NODE_PING_TIMEOUT_BATTERY_POWERED
                             else NODE_PING_TIMEOUT)
              in case get_node_ip_addresses env nid False True s of
                   (Inl e, s1) \<Rightarrow> (Inl e, s1)
                 | (Inr ip_addresses, s1) \<Rightarrow>
                     (let (result, s2) = do_pings env timeout attempts ip_addresses [] s1;
                          s3 = ask (log_effect (Sdk (GetAddressAndPort nid)) s2)
                      in case sdk_get_address_and_port env (tick s2) of
                           None \<Rightarrow> (Inr result, s3)
                         | Some sdk_result \<Rightarrow>
                             (Inr (if map_of result (fst sdk_result) = None \<and> available (heap s3 node)
                                   then AList.update (fst sdk_result) True result
                                   else result), s3)))))"

section \<open>Concrete states and collaborators\<close>

text \<open>
  The state after \<open>__init__\<close>, and a collaborator for which every call succeeds and every
  read returns an empty result; the examples below vary them field by field.
\<close>

definition blank_node :: MatterNodeData where
  "blank_node = \<lparr>node_id = 0, date_commissioned = 0, last_interview = 0, interview_version = 0,
     available = False, is_bridge = False, attributes = [], attribute_subscriptions = []\<rparr>"

definition init_controller :: controller where
  "init_controller = \<lparr>storage_last_node_id = None, heap = (\<lambda>a. blank_node), next_addr = 0,
     nodes = [], nodes_in_setup = {}, known_commissioning_params = Map.empty,
     last_subscription_attempt = Map.empty, last_known_ip_addresses = Map.empty,
     node_last_seen = Map.empty, polled_attributes = [], compressed_fabric_id = None,
     custom_attribute_poller_timer = None, next_timer = 0, tick = 0, trace = []\<rparr>"

definition example_env :: environment where
  "example_env = \<lparr>sdk_commission = (\<lambda>t. Inr (Some True)),
     sdk_read_attribute = (\<lambda>t. Inr []),
     sdk_subscribe = (\<lambda>t. Inr []),
     sdk_read = (\<lambda>t. Inr []),
     sdk_open_commissioning_window =
       (\<lambda>t. Inr \<lparr>setup_pin_code = 20202021, setup_manual_code = ''34970112332'',
                 setup_qr_code = ''MT:Y.K9042C00KA0648G00''\<rparr>),
     sdk_shutdown_subscription = (\<lambda>t. None),
     sdk_find_or_establish_case_session = (\<lambda>t. None),
     sdk_get_address_and_port = (\<lambda>t. None),
     mdns_request = (\<lambda>t. None),
     ping_ip = (\<lambda>t. True),
     clock = (\<lambda>t. int t),
     random_source = (\<lambda>t. t),
     json_loads = (\<lambda>d. None),
     dataclass_from_dict = (\<lambda>d. Inl ValueError),
     parse_attribute_path = (\<lambda>p. Inr (None, None, None)),
     check_polled_attributes = (\<lambda>n. []),
     scope_ipv6_lla = (\<lambda>ip. ip),
     DATA_MODEL_SCHEMA_VERSION = 6\<rparr>"

text \<open>A registry with one node object at address 0, registered under the given id.\<close>

definition one_node_controller :: "int \<Rightarrow> MatterNodeData \<Rightarrow> controller" where
  "one_node_controller nid n =
     init_controller\<lparr>heap := (\<lambda>a. blank_node)(0 := n), next_addr := 1, nodes := [(nid, 0)]\<rparr>"

text \<open>
  A collaborator whose JSON decoder yields a single-node diagnostics dump and whose
  \<open>dataclass_from_dict\<close> accepts every node dictionary.
\<close>

definition dump_env :: environment where
  "dump_env = example_env\<lparr>
     json_loads := (\<lambda>d. Some (VDict [(KStr ''data'', VDict [(KStr ''node'', VDict [])])])),
     dataclass_from_dict := (\<lambda>d. Inr blank_node)\<rparr>"




text \<open>Whether an event is an \<open>ATTRIBUTE_UPDATED\<close> event.\<close>

fun is_attribute_updated :: "event \<Rightarrow> bool" where
  "is_attribute_updated (ATTRIBUTE_UPDATED nid path v) = True"
| "is_attribute_updated ev = False"

text \<open>A bridge with two bridged endpoints, registered as node 5 and subscribed.\<close>

definition bridge_controller :: controller where
  "bridge_controller =
     (one_node_controller 5
        (blank_node\<lparr>available := True, is_bridge := True,
           attributes := [(''0/29/3'', VList [VInt 1, VInt 2]),
                          (''1/6/0'', VBool True), (''2/6/0'', VBool False)]\<rparr>))
       \<lparr>last_subscription_attempt := [5 \<mapsto> 0]\<rparr>"

section \<open>Basic facts\<close>

lemma signalled_append: "signalled (xs @ ys) = signalled xs @ signalled ys"
  by (induction xs rule: signalled.induct) simp_all

lemmas effect_defs = log_effect_def ask_def signal_event_def sleep_def create_task_def
  call_later_def cancel_timer_def update_node_def new_node_def

section \<open>Id allocation\<close>

text \<open>
  C3, as amended. \<open>_get_next_node_id\<close> returns the stored last node id (0 when none is
  stored) plus one and writes it back with \<open>force=True\<close>. It has no bound of its own: the
  result is below \<open>TEST_NODE_START\<close> exactly when the stored value is below
  \<open>TEST_NODE_START - 1\<close>.
\<close>

theorem get_next_node_id_allocates:
  "fst (get_next_node_id s) = stored_last_node_id s + 1
   \<and> storage_last_node_id (snd (get_next_node_id s)) = Some (stored_last_node_id s + 1)
   \<and> trace (snd (get_next_node_id s))
       = trace s @ [StorageSetLastNodeId (stored_last_node_id s + 1) True]
   \<and> (fst (get_next_node_id s) < TEST_NODE_START
        \<longleftrightarrow> stored_last_node_id s < TEST_NODE_START - 1)"
  by (auto simp: get_next_node_id_def Let_def effect_defs)

theorem get_next_node_id_allocates_witness:
  "fst (get_next_node_id (init_controller\<lparr>storage_last_node_id := Some 41\<rparr>)) = 42
   \<and> trace (snd (get_next_node_id (init_controller\<lparr>storage_last_node_id := Some 41\<rparr>)))
       = [StorageSetLastNodeId 42 True]"
  using get_next_node_id_allocates [of "init_controller\<lparr>storage_last_node_id := Some 41\<rparr>"]
  by (simp add: stored_last_node_id_def init_controller_def)

text \<open>
  C3 as stated fails: with 899999 stored, the allocator hands out 900000, the first id of
  the test-node range.
\<close>

theorem get_next_node_id_counterexample:
  "fst (get_next_node_id (init_controller\<lparr>storage_last_node_id := Some 899999\<rparr>)) = 900000
   \<and> \<not> fst (get_next_node_id (init_controller\<lparr>storage_last_node_id := Some 899999\<rparr>))
         < TEST_NODE_START"
  by (simp add: get_next_node_id_def stored_last_node_id_def init_controller_def Let_def
        TEST_NODE_START_def)

section \<open>The commission loop\<close>

lemma commission_loop_retry:
  assumes "sdk_commission env (tick s) = Inr r" "r \<noteq> Some True" "attempts + 1 < MAX_COMMISSION_RETRIES"
  shows "commission_loop env call attempts s
           = commission_loop env call (attempts + 1) (sleep 5 (ask (log_effect (Sdk call) s)))"
  using assms by (subst commission_loop.simps) (simp add: MAX_COMMISSION_RETRIES_def)

lemma commission_loop_give_up:
  assumes "sdk_commission env (tick s) = Inr r" "r \<noteq> Some True"
    "attempts \<le> MAX_COMMISSION_RETRIES" "attempts + 1 \<ge> MAX_COMMISSION_RETRIES"
  shows "commission_loop env call attempts s
           = (Inl NodeCommissionFailed, ask (log_effect (Sdk call) s))"
  using assms by (subst commission_loop.simps) simp

lemma tick_after_attempt: "tick (sleep n (ask (log_effect e s))) = tick s + 1"
  by (simp add: effect_defs)

lemma commission_loop_exhausted:
  assumes "\<And>t. \<exists>r. sdk_commission env t = Inr r \<and> r \<noteq> Some True"
  shows "commission_loop env call 0 s =
           (Inl NodeCommissionFailed,
            s\<lparr>tick := tick s + 3,
              trace := trace s @ [Sdk call, Sleep 5, Sdk call, Sleep 5, Sdk call]\<rparr>)"
proof -
  define s1 where "s1 = sleep 5 (ask (log_effect (Sdk call) s))"
  define s2 where "s2 = sleep 5 (ask (log_effect (Sdk call) s1))"
  obtain r0 where r0: "sdk_commission env (tick s) = Inr r0" "r0 \<noteq> Some True"
    using assms by blast
  obtain r1 where r1: "sdk_commission env (tick s1) = Inr r1" "r1 \<noteq> Some True"
    using assms by blast
  obtain r2 where r2: "sdk_commission env (tick s2) = Inr r2" "r2 \<noteq> Some True"
    using assms by blast
  have "commission_loop env call 0 s = commission_loop env call 1 s1"
    using commission_loop_retry [OF r0, of 0 call] by (simp add: MAX_COMMISSION_RETRIES_def s1_def)
  also have "\<dots> = commission_loop env call 2 s2"
    using commission_loop_retry [OF r1, of 1 call] by (simp add: MAX_COMMISSION_RETRIES_def s2_def)
  also have "\<dots> = (Inl NodeCommissionFailed, ask (log_effect (Sdk call) s2))"
    using commission_loop_give_up [OF r2, of 2 call] by (simp add: MAX_COMMISSION_RETRIES_def)
  also have "ask (log_effect (Sdk call) s2)
      = s\<lparr>tick := tick s + 3,
           trace := trace s @ [Sdk call, Sleep 5, Sdk call, Sleep 5, Sdk call]\<rparr>"
    by (simp add: s2_def s1_def effect_defs)
  finally show ?thesis .
qed

text \<open>
  C1, as amended. When the adapter reports non-success on every attempt (it returns
  \<open>None\<close> or a result that is not a success), \<open>commission_with_code\<close> and
  \<open>commission_on_network\<close> (with or without an IP address) make exactly three adapter
  calls with a 5-second sleep between them and then fail with \<open>NodeCommissionFailed\<close>: the
  guard \<open>attempts >= MAX_COMMISSION_RETRIES\<close> raises in the third round, so there is no
  fourth call. The node id has been allocated before.
\<close>

theorem commission_three_attempts:
  assumes "\<And>t. \<exists>r. sdk_commission env t = Inr r \<and> r \<noteq> Some True"
  shows "fst (commission_with_code env code network_only s) = Inl NodeCommissionFailed
    \<and> trace (snd (commission_with_code env code network_only s))
        = trace s @ [StorageSetLastNodeId (stored_last_node_id s + 1) True,
            Sdk (CommissionWithCode (stored_last_node_id s + 1) code network_only), Sleep 5,
            Sdk (CommissionWithCode (stored_last_node_id s + 1) code network_only), Sleep 5,
            Sdk (CommissionWithCode (stored_last_node_id s + 1) code network_only)]
    \<and> fst (commission_on_network env pin filter_type filter_arg None s) = Inl NodeCommissionFailed
    \<and> trace (snd (commission_on_network env pin filter_type filter_arg None s))
        = trace s @ [StorageSetLastNodeId (stored_last_node_id s + 1) True,
            Sdk (CommissionOnNetwork (stored_last_node_id s + 1) pin filter_type filter_arg), Sleep 5,
            Sdk (CommissionOnNetwork (stored_last_node_id s + 1) pin filter_type filter_arg), Sleep 5,
            Sdk (CommissionOnNetwork (stored_last_node_id s + 1) pin filter_type filter_arg)]
    \<and> fst (commission_on_network env pin filter_type filter_arg (Some ip) s) = Inl NodeCommissionFailed
    \<and> trace (snd (commission_on_network env pin filter_type filter_arg (Some ip) s))
        = trace s @ [StorageSetLastNodeId (stored_last_node_id s + 1) True,
            Sdk (CommissionIp (stored_last_node_id s + 1) pin (scope_ipv6_lla env ip)), Sleep 5,
            Sdk (CommissionIp (stored_last_node_id s + 1) pin (scope_ipv6_lla env ip)), Sleep 5,
            Sdk (CommissionIp (stored_last_node_id s + 1) pin (scope_ipv6_lla env ip))]"
  by (simp add: commission_with_code_def commission_on_network_def get_next_node_id_def Let_def
        commission_loop_exhausted [OF assms] effect_defs)

theorem commission_three_attempts_witness:
  "fst (commission_on_network (example_env\<lparr>sdk_commission := (\<lambda>t. Inr None)\<rparr>)
          20202021 0 VNone (Some ''fe80::1'') init_controller) = Inl NodeCommissionFailed
   \<and> trace (snd (commission_on_network (example_env\<lparr>sdk_commission := (\<lambda>t. Inr None)\<rparr>)
          20202021 0 VNone (Some ''fe80::1'') init_controller))
       = [StorageSetLastNodeId 1 True,
          Sdk (CommissionIp 1 20202021 ''fe80::1''), Sleep 5,
          Sdk (CommissionIp 1 20202021 ''fe80::1''), Sleep 5,
          Sdk (CommissionIp 1 20202021 ''fe80::1'')]"
proof -
  have h: "\<And>t. \<exists>r. sdk_commission (example_env\<lparr>sdk_commission := (\<lambda>t. Inr None)\<rparr>) t = Inr r
                    \<and> r \<noteq> Some True"
    by simp
  from commission_three_attempts [OF h, of "''MT:Y''" False init_controller 20202021 0 VNone "''fe80::1''"]
  show ?thesis
    by (simp add: stored_last_node_id_def init_controller_def example_env_def)
qed

text \<open>
  C1 as stated fails: an adapter that always reports non-success is called three times,
  not four, before \<open>commission_with_code\<close> fails.
\<close>

theorem commission_four_attempts_counterexample:
  "fst (commission_with_code (example_env\<lparr>sdk_commission := (\<lambda>t. Inr (Some False))\<rparr>)
          ''MT:Y'' False init_controller) = Inl NodeCommissionFailed
   \<and> trace (snd (commission_with_code (example_env\<lparr>sdk_commission := (\<lambda>t. Inr (Some False))\<rparr>)
          ''MT:Y'' False init_controller))
       = [StorageSetLastNodeId 1 True,
          Sdk (CommissionWithCode 1 ''MT:Y'' False), Sleep 5,
          Sdk (CommissionWithCode 1 ''MT:Y'' False), Sleep 5,
          Sdk (CommissionWithCode 1 ''MT:Y'' False)]"
  by code_simp

section \<open>The interview loop\<close>

text \<open>
  The \<open>raise err\<close> of the interview loop is guarded by \<open>retries <= 0\<close> inside a loop that
  only runs while \<open>retries\<close> is not 0: the loop never raises an exception it catches.
\<close>

lemma interview_loop_swallows:
  "interview_loop env caught nid retries s = (Inl e, s') \<Longrightarrow> e \<notin> set caught"
proof (induction retries arbitrary: s)
  case 0
  then show ?case by (simp add: interview_loop.simps)
next
  case (Suc n)
  from Suc.prems show ?case
    by (subst (asm) interview_loop.simps)
       (auto split: prod.splits sum.splits if_splits dest: Suc.IH)
qed

text \<open>
  C2, evaluated where the claim and the code part. Commissioning succeeds at once and each
  of the three interviews fails with a stack error (\<open>NodeInterviewFailed\<close>). The loop sleeps
  after the third failure as well and ends without raising; the command goes on to
  \<open>_setup_node\<close>, and what the caller sees is its \<open>NodeNotExists\<close>, not the interview error.
\<close>

theorem commission_with_code_interview_failure:
  "fst (commission_with_code (example_env\<lparr>sdk_read_attribute := (\<lambda>t. Inl ChipStackError)\<rparr>)
          ''MT:Y'' False init_controller) = Inl NodeNotExists
   \<and> trace (snd (commission_with_code (example_env\<lparr>sdk_read_attribute := (\<lambda>t. Inl ChipStackError)\<rparr>)
          ''MT:Y'' False init_controller))
       = [StorageSetLastNodeId 1 True, Sdk (CommissionWithCode 1 ''MT:Y'' False),
          Sdk (ReadAttributeAll 1), Sleep 5, Sdk (ReadAttributeAll 1), Sleep 5,
          Sdk (ReadAttributeAll 1), Sleep 5]"
  by code_simp

section \<open>Ping\<close>

text \<open>
  C10. \<open>ping_node\<close> tests the test-node range before it looks the node up: for every
  node id from \<open>TEST_NODE_START\<close> on it returns the canned map, whatever the registry holds,
  and for an unknown node id below \<open>TEST_NODE_START\<close> it raises \<open>NodeNotExists\<close>.
\<close>

theorem ping_node_test_range_first:
  "(nid \<ge> TEST_NODE_START \<longrightarrow>
      ping_node env nid attempts s
        = (Inr [(''0.0.0.0'', True), (''0000:1111:2222:3333:4444'', True)], s))
   \<and> (nid < TEST_NODE_START \<and> map_of (nodes s) nid = None \<longrightarrow>
      ping_node env nid attempts s = (Inl NodeNotExists, s))"
  by (simp add: ping_node_def)

theorem ping_node_test_range_first_witness:
  "ping_node example_env 900001 1 init_controller
     = (Inr [(''0.0.0.0'', True), (''0000:1111:2222:3333:4444'', True)], init_controller)
   \<and> map_of (nodes init_controller) 900001 = None
   \<and> ping_node example_env 5 1 init_controller = (Inl NodeNotExists, init_controller)"
  using ping_node_test_range_first [of 900001 example_env 1 init_controller]
    ping_node_test_range_first [of 5 example_env 1 init_controller]
  by (simp add: TEST_NODE_START_def init_controller_def)

section \<open>Commissioning window\<close>




section \<open>Importing test nodes\<close>

lemma py_max_args_nonempty:
  assumes "keys \<noteq> []"
  shows "py_max_args (keys @ [t]) = Inr (max (Max (set keys)) t)"
proof -
  obtain x xs where k: "keys = x # xs"
    using assms by (cases keys) auto
  have "py_max_args (keys @ [t]) = Inr (fold max (xs @ [t]) x)"
    using k by (cases xs) simp_all
  also have "fold max (xs @ [t]) x = Max (set (x # xs @ [t]))"
    by (rule Max.set_eq_fold [symmetric])
  also have "set (x # xs @ [t]) = insert t (set keys)"
    using k by auto
  also have "Max (insert t (set keys)) = max t (Max (set keys))"
    using assms by (intro Max_insert) auto
  finally show ?thesis by (simp add: max.commute)
qed

lemma import_test_node_loop_ids:
  assumes "\<forall>d\<in>set ds. \<exists>n. dataclass_from_dict env d = Inr n"
  shows "\<exists>s'. import_test_node_loop env ds k s = (Inr (), s')
           \<and> next_addr s' = next_addr s + length ds
           \<and> signalled (trace s')
               = signalled (trace s) @ map NODE_ADDED [next_addr s..<next_addr s + length ds]
           \<and> (\<forall>i<length ds. map_of (nodes s') (k + int i) = Some (next_addr s + i)
                 \<and> node_id (heap s' (next_addr s + i)) = k + int i)
           \<and> (\<forall>j<k. map_of (nodes s') j = map_of (nodes s) j)
           \<and> (\<forall>a<next_addr s. heap s' a = heap s a)"
  using assms
proof (induction ds arbitrary: k s)
  case Nil
  then show ?case by simp
next
  case (Cons d ds)
  then obtain n where n: "dataclass_from_dict env d = Inr n" by auto
  define s1 where "s1 = signal_event (NODE_ADDED (next_addr s))
     (s\<lparr>heap := (heap s)(next_addr s := n\<lparr>node_id := k\<rparr>), next_addr := next_addr s + 1,
        nodes := AList.update k (next_addr s) (nodes s)\<rparr>)"
  have step: "import_test_node_loop env (d # ds) k s = import_test_node_loop env ds (k + 1) s1"
    by (simp add: n s1_def new_node_def Let_def)
  have s1_facts: "next_addr s1 = next_addr s + 1"
    "trace s1 = trace s @ [SignalEvent (NODE_ADDED (next_addr s))]"
    "map_of (nodes s1) = (map_of (nodes s))(k \<mapsto> next_addr s)"
    "heap s1 = (heap s)(next_addr s := n\<lparr>node_id := k\<rparr>)"
    by (simp_all add: s1_def effect_defs update_conv')
  from Cons.prems have "\<forall>d\<in>set ds. \<exists>n. dataclass_from_dict env d = Inr n" by simp
  from Cons.IH [OF this, of "k + 1" s1]
  obtain s' where s': "import_test_node_loop env ds (k + 1) s1 = (Inr (), s')"
    "next_addr s' = next_addr s1 + length ds"
    "signalled (trace s')
       = signalled (trace s1) @ map NODE_ADDED [next_addr s1..<next_addr s1 + length ds]"
    "\<forall>i<length ds. map_of (nodes s') (k + 1 + int i) = Some (next_addr s1 + i)
        \<and> node_id (heap s' (next_addr s1 + i)) = k + 1 + int i"
    "\<forall>j<k + 1. map_of (nodes s') j = map_of (nodes s1) j"
    "\<forall>a<next_addr s1. heap s' a = heap s1 a"
    by blast
  have ev: "signalled (trace s')
       = signalled (trace s) @ map NODE_ADDED [next_addr s..<next_addr s + length (d # ds)]"
  proof -
    have u: "[next_addr s..<next_addr s + length (d # ds)]
               = next_addr s # [next_addr s1..<next_addr s1 + length ds]"
      by (simp add: s1_facts(1) upt_conv_Cons del: upt_Suc)
    have "signalled (trace s1) = signalled (trace s) @ [NODE_ADDED (next_addr s)]"
      by (simp add: s1_facts(2) signalled_append)
    with s'(3) show ?thesis unfolding u by simp
  qed
  have ids: "map_of (nodes s') (k + int i) = Some (next_addr s + i)
        \<and> node_id (heap s' (next_addr s + i)) = k + int i" if "i < length (d # ds)" for i
  proof (cases i)
    case 0
    then show ?thesis using s'(5) s'(6) by (simp add: s1_facts)
  next
    case (Suc i')
    with that have "i' < length ds" by simp
    with s'(4) Suc show ?thesis by (simp add: s1_facts add.commute add.left_commute)
  qed
  have frame: "\<forall>j<k. map_of (nodes s') j = map_of (nodes s) j"
    "\<forall>a<next_addr s. heap s' a = heap s a"
    using s'(5) s'(6) by (simp_all add: s1_facts)
  show ?case
    using step s'(1) s'(2) ev ids frame by (auto simp: s1_facts)
qed

text \<open>
  C9. With an empty registry, a dump that parses and has the expected structure makes
  \<open>import_test_node\<close> raise \<open>TypeError\<close> (\<open>max\<close> of a single integer) and import nothing. With
  a non-empty registry, when every node of the dump can be turned into a node record, the
  nodes are registered under consecutive ids starting at \<open>max(known ids, 900000) + 1\<close>, each
  as a new object carrying its id, with one \<open>NODE_ADDED\<close> event per node.
\<close>

theorem import_test_node_ids:
  assumes "json_loads env dump = Some dump_data" and "dump_nodes_of dump_data = Inr dump_nodes"
  shows "(nodes s = [] \<longrightarrow> import_test_node env dump s = (Inl TypeError, s))
    \<and> (nodes s \<noteq> [] \<and> py_iter dump_nodes = Inr ds
         \<and> (\<forall>d\<in>set ds. \<exists>n. dataclass_from_dict env d = Inr n)
       \<longrightarrow> (\<exists>s'. import_test_node env dump s = (Inr (), s')
             \<and> (\<forall>i<length ds.
                   map_of (nodes s') (max (Max (fst ` set (nodes s))) TEST_NODE_START + 1 + int i)
                     = Some (next_addr s + i)
                   \<and> node_id (heap s' (next_addr s + i))
                     = max (Max (fst ` set (nodes s))) TEST_NODE_START + 1 + int i)
             \<and> signalled (trace s')
                 = signalled (trace s) @ map NODE_ADDED [next_addr s..<next_addr s + length ds]))"
proof (intro conjI impI)
  assume "nodes s = []"
  then show "import_test_node env dump s = (Inl TypeError, s)"
    using assms by (simp add: import_test_node_def)
next
  assume a: "nodes s \<noteq> [] \<and> py_iter dump_nodes = Inr ds
         \<and> (\<forall>d\<in>set ds. \<exists>n. dataclass_from_dict env d = Inr n)"
  let ?k = "max (Max (fst ` set (nodes s))) TEST_NODE_START + 1"
  have m: "py_max_args (map fst (nodes s) @ [TEST_NODE_START])
             = Inr (max (Max (fst ` set (nodes s))) TEST_NODE_START)"
    using a py_max_args_nonempty [of "map fst (nodes s)" TEST_NODE_START] by simp
  have run: "import_test_node env dump s = import_test_node_loop env ds ?k s"
    using assms a m by (simp add: import_test_node_def)
  from a import_test_node_loop_ids [of ds env ?k s]
  show "\<exists>s'. import_test_node env dump s = (Inr (), s')
             \<and> (\<forall>i<length ds. map_of (nodes s') (?k + int i) = Some (next_addr s + i)
                   \<and> node_id (heap s' (next_addr s + i)) = ?k + int i)
             \<and> signalled (trace s')
                 = signalled (trace s) @ map NODE_ADDED [next_addr s..<next_addr s + length ds]"
    unfolding run by blast
qed

theorem import_test_node_ids_witness:
  "import_test_node dump_env ''dump'' init_controller = (Inl TypeError, init_controller)
   \<and> fst (import_test_node dump_env ''dump'' (one_node_controller 5 blank_node)) = Inr ()
   \<and> map_of (nodes (snd (import_test_node dump_env ''dump'' (one_node_controller 5 blank_node))))
        900001 = Some 1
   \<and> node_id (heap (snd (import_test_node dump_env ''dump'' (one_node_controller 5 blank_node))) 1)
        = 900001"
proof -
  have j: "json_loads dump_env ''dump''
             = Some (VDict [(KStr ''data'', VDict [(KStr ''node'', VDict [])])])"
    by (simp add: dump_env_def)
  have n: "dump_nodes_of (VDict [(KStr ''data'', VDict [(KStr ''node'', VDict [])])])
             = Inr (VList [VDict []])"
    by (simp add: dump_nodes_of_def)
  have d: "\<forall>d\<in>set [VDict []]. \<exists>n. dataclass_from_dict dump_env d = Inr n"
    by (simp add: dump_env_def)
  from import_test_node_ids [OF j n, of init_controller "[VDict []]"]
  have a: "import_test_node dump_env ''dump'' init_controller = (Inl TypeError, init_controller)"
    by (simp add: init_controller_def)
  from import_test_node_ids [OF j n, of "one_node_controller 5 blank_node" "[VDict []]"] d
  obtain s' where s': "import_test_node dump_env ''dump'' (one_node_controller 5 blank_node)
                         = (Inr (), s')"
    "map_of (nodes s') 900001 = Some 1" "node_id (heap s' 1) = 900001"
    by (auto simp: one_node_controller_def init_controller_def TEST_NODE_START_def)
  from a s' show ?thesis by simp
qed

section \<open>Resubscription attempts\<close>

lemma resubscription_attempted_step:
  assumes "last_subscription_attempt s nid = Some c"
  shows "\<exists>s1. resubscription_attempted nid node te iv s = (Inr (), s1)
      \<and> last_subscription_attempt s1 nid = Some (c + 1)
      \<and> available (heap s1 node)
          = (available (heap s node) \<and> c + 1 < NODE_RESUBSCRIBE_ATTEMPTS_UNAVAILABLE)
      \<and> signalled (trace s1)
          = signalled (trace s) @
            (if available (heap s node) \<and> c + 1 \<ge> NODE_RESUBSCRIBE_ATTEMPTS_UNAVAILABLE
             then [NODE_UPDATED node] else [])"
  using assms
  by (auto simp: resubscription_attempted_def Let_def effect_defs signalled_append)

lemma resubscription_attempts_run:
  assumes "last_subscription_attempt s nid = Some c"
  shows "\<exists>s'. resubscription_attempts nid node cbs s = (Inr (), s')
      \<and> last_subscription_attempt s' nid = Some (c + int (length cbs))
      \<and> available (heap s' node)
          = (available (heap s node)
             \<and> \<not> (cbs \<noteq> [] \<and> c + int (length cbs) \<ge> NODE_RESUBSCRIBE_ATTEMPTS_UNAVAILABLE))
      \<and> signalled (trace s')
          = signalled (trace s) @
            (if available (heap s node) \<and> cbs \<noteq> []
                \<and> c + int (length cbs) \<ge> NODE_RESUBSCRIBE_ATTEMPTS_UNAVAILABLE
             then [NODE_UPDATED node] else [])"
  using assms
proof (induction cbs arbitrary: s c)
  case Nil
  then show ?case by simp
next
  case (Cons cb cbs)
  from resubscription_attempted_step [OF Cons.prems, of node "fst cb" "snd cb"]
  obtain s1 where s1: "resubscription_attempted nid node (fst cb) (snd cb) s = (Inr (), s1)"
    "last_subscription_attempt s1 nid = Some (c + 1)"
    "available (heap s1 node)
       = (available (heap s node) \<and> c + 1 < NODE_RESUBSCRIBE_ATTEMPTS_UNAVAILABLE)"
    "signalled (trace s1)
       = signalled (trace s) @
         (if available (heap s node) \<and> c + 1 \<ge> NODE_RESUBSCRIBE_ATTEMPTS_UNAVAILABLE
          then [NODE_UPDATED node] else [])"
    by blast
  from Cons.IH [OF s1(2)]
  obtain s' where s': "resubscription_attempts nid node cbs s1 = (Inr (), s')"
    "last_subscription_attempt s' nid = Some (c + 1 + int (length cbs))"
    "available (heap s' node)
       = (available (heap s1 node)
          \<and> \<not> (cbs \<noteq> [] \<and> c + 1 + int (length cbs) \<ge> NODE_RESUBSCRIBE_ATTEMPTS_UNAVAILABLE))"
    "signalled (trace s')
       = signalled (trace s1) @
         (if available (heap s1 node) \<and> cbs \<noteq> []
             \<and> c + 1 + int (length cbs) \<ge> NODE_RESUBSCRIBE_ATTEMPTS_UNAVAILABLE
          then [NODE_UPDATED node] else [])"
    by blast
  have run: "resubscription_attempts nid node (cb # cbs) s = (Inr (), s')"
    by (simp add: s1(1) s'(1))
  have cnt: "last_subscription_attempt s' nid = Some (c + int (length (cb # cbs)))"
    using s'(2) by (simp add: add.assoc add.commute)
  have av: "available (heap s' node)
       = (available (heap s node)
          \<and> \<not> (cb # cbs \<noteq> []
               \<and> c + int (length (cb # cbs)) \<ge> NODE_RESUBSCRIBE_ATTEMPTS_UNAVAILABLE))"
    unfolding s'(3) s1(3) by (cases "cbs = []") auto
  have ev: "signalled (trace s')
       = signalled (trace s) @
         (if available (heap s node) \<and> cb # cbs \<noteq> []
             \<and> c + int (length (cb # cbs)) \<ge> NODE_RESUBSCRIBE_ATTEMPTS_UNAVAILABLE
          then [NODE_UPDATED node] else [])"
    unfolding s'(4) s1(4) s1(3) by (cases "cbs = []") auto
  from run cnt av ev show ?case by blast
qed

text \<open>
  C5. A \<open>resubscription_attempted\<close> callback of a subscription (whose attempt counter
  \<open>_subscribe_node\<close> has set before it registers the callback) returns normally and
  increments the counter. If the node is available and the new count is at least
  \<open>NODE_RESUBSCRIBE_ATTEMPTS_UNAVAILABLE\<close>, the node becomes unavailable and the callback
  signals one \<open>NODE_UPDATED\<close>; otherwise availability stays and nothing is signalled. Over
  any run of such callbacks, \<open>NODE_UPDATED\<close> is signalled once if the node was available
  and the count reaches the threshold during the run, and not at all otherwise: callbacks
  that find the node unavailable signal nothing.
\<close>

theorem resubscription_attempted_spec:
  assumes "last_subscription_attempt s nid = Some c"
  shows "fst (resubscription_attempted nid node te iv s) = Inr ()
    \<and> last_subscription_attempt (snd (resubscription_attempted nid node te iv s)) nid
        = Some (c + 1)
    \<and> (available (heap s node) \<and> c + 1 \<ge> NODE_RESUBSCRIBE_ATTEMPTS_UNAVAILABLE
       \<longrightarrow> \<not> available (heap (snd (resubscription_attempted nid node te iv s)) node)
           \<and> signalled (trace (snd (resubscription_attempted nid node te iv s)))
               = signalled (trace s) @ [NODE_UPDATED node])
    \<and> (\<not> (available (heap s node) \<and> c + 1 \<ge> NODE_RESUBSCRIBE_ATTEMPTS_UNAVAILABLE)
       \<longrightarrow> available (heap (snd (resubscription_attempted nid node te iv s)) node)
             = available (heap s node)
           \<and> signalled (trace (snd (resubscription_attempted nid node te iv s)))
               = signalled (trace s))
    \<and> fst (resubscription_attempts nid node cbs s) = Inr ()
    \<and> signalled (trace (snd (resubscription_attempts nid node cbs s)))
        = signalled (trace s) @
          (if available (heap s node) \<and> cbs \<noteq> []
              \<and> c + int (length cbs) \<ge> NODE_RESUBSCRIBE_ATTEMPTS_UNAVAILABLE
           then [NODE_UPDATED node] else [])"
proof -
  from resubscription_attempted_step [OF assms, of node te iv]
  obtain s1 where s1: "resubscription_attempted nid node te iv s = (Inr (), s1)"
    "last_subscription_attempt s1 nid = Some (c + 1)"
    "available (heap s1 node)
       = (available (heap s node) \<and> c + 1 < NODE_RESUBSCRIBE_ATTEMPTS_UNAVAILABLE)"
    "signalled (trace s1)
       = signalled (trace s) @
         (if available (heap s node) \<and> c + 1 \<ge> NODE_RESUBSCRIBE_ATTEMPTS_UNAVAILABLE
          then [NODE_UPDATED node] else [])"
    by blast
  from resubscription_attempts_run [OF assms, of node cbs]
  obtain s' where s': "resubscription_attempts nid node cbs s = (Inr (), s')"
    "signalled (trace s')
       = signalled (trace s) @
         (if available (heap s node) \<and> cbs \<noteq> []
             \<and> c + int (length cbs) \<ge> NODE_RESUBSCRIBE_ATTEMPTS_UNAVAILABLE
          then [NODE_UPDATED node] else [])"
    by blast
  have a: "fst (resubscription_attempted nid node te iv s) = Inr ()"
    "last_subscription_attempt (snd (resubscription_attempted nid node te iv s)) nid
        = Some (c + 1)"
    by (simp_all add: s1(1) s1(2))
  have b: "available (heap s node) \<and> c + 1 \<ge> NODE_RESUBSCRIBE_ATTEMPTS_UNAVAILABLE
       \<longrightarrow> \<not> available (heap (snd (resubscription_attempted nid node te iv s)) node)
           \<and> signalled (trace (snd (resubscription_attempted nid node te iv s)))
               = signalled (trace s) @ [NODE_UPDATED node]"
    by (simp add: s1(1) s1(3) s1(4))
  have c: "\<not> (available (heap s node) \<and> c + 1 \<ge> NODE_RESUBSCRIBE_ATTEMPTS_UNAVAILABLE)
       \<longrightarrow> available (heap (snd (resubscription_attempted nid node te iv s)) node)
             = available (heap s node)
           \<and> signalled (trace (snd (resubscription_attempted nid node te iv s)))
               = signalled (trace s)"
    unfolding s1(1) snd_conv s1(3) s1(4) by auto
  have d: "fst (resubscription_attempts nid node cbs s) = Inr ()"
    "signalled (trace (snd (resubscription_attempts nid node cbs s)))
        = signalled (trace s) @
          (if available (heap s node) \<and> cbs \<noteq> []
              \<and> c + int (length cbs) \<ge> NODE_RESUBSCRIBE_ATTEMPTS_UNAVAILABLE
           then [NODE_UPDATED node] else [])"
    unfolding s'(1) fst_conv snd_conv by (rule refl, rule s'(2))
  from a b c d show ?thesis by blast
qed

theorem resubscription_attempted_spec_witness:
  "signalled (trace (snd (resubscription_attempts 5 0 [(0, 1000), (0, 2000), (0, 4000), (0, 8000)]
       ((one_node_controller 5 (blank_node\<lparr>available := True\<rparr>))
          \<lparr>last_subscription_attempt := [5 \<mapsto> 0]\<rparr>))))
     = [NODE_UPDATED 0]
   \<and> last_subscription_attempt (snd (resubscription_attempted 5 0 0 1000
       ((one_node_controller 5 (blank_node\<lparr>available := True\<rparr>))
          \<lparr>last_subscription_attempt := [5 \<mapsto> 2]\<rparr>))) 5 = Some 3
   \<and> \<not> available (heap (snd (resubscription_attempted 5 0 0 1000
       ((one_node_controller 5 (blank_node\<lparr>available := True\<rparr>))
          \<lparr>last_subscription_attempt := [5 \<mapsto> 2]\<rparr>))) 0)"
  using resubscription_attempted_spec
      [of "(one_node_controller 5 (blank_node\<lparr>available := True\<rparr>))
             \<lparr>last_subscription_attempt := [5 \<mapsto> 0]\<rparr>" 5 0 0 0 1000
          "[(0, 1000), (0, 2000), (0, 4000), (0, 8000)]"]
    resubscription_attempted_spec
      [of "(one_node_controller 5 (blank_node\<lparr>available := True\<rparr>))
             \<lparr>last_subscription_attempt := [5 \<mapsto> 2]\<rparr>" 5 2 0 0 1000 "[]"]
  by (simp add: one_node_controller_def init_controller_def blank_node_def
        NODE_RESUBSCRIBE_ATTEMPTS_UNAVAILABLE_def)

section \<open>Attribute updates of a subscription\<close>

lemma write_node_state_trace:
  "trace (write_node_state nid force s)
     = trace s @ (if map_of (nodes s) nid \<noteq> None \<and> nid < TEST_NODE_START
                  then [StorageSetNode nid (the (map_of (nodes s) nid)) force] else [])"
  by (simp add: write_node_state_def effect_defs)

lemma write_node_state_frame:
  "heap (write_node_state nid force s) = heap s"
  "nodes (write_node_state nid force s) = nodes s"
  "signalled (trace (write_node_state nid force s)) = signalled (trace s)"
  by (simp_all add: write_node_state_def effect_defs signalled_append)

lemma handle_endpoints_removed_loop_facts:
  "signalled (trace (handle_endpoints_removed_loop nid node eps s))
     = signalled (trace s) @ map (ENDPOINT_REMOVED nid) eps
   \<and> nodes (handle_endpoints_removed_loop nid node eps s) = nodes s
   \<and> set (attributes (heap (handle_endpoints_removed_loop nid node eps s) a))
       \<subseteq> set (attributes (heap s a))"
proof (induction eps arbitrary: s)
  case Nil
  then show ?case by simp
next
  case (Cons ep eps)
  define s1 where "s1 = signal_event (ENDPOINT_REMOVED nid ep)
     (update_node node
        (\<lambda>n. n\<lparr>attributes :=
           filter (\<lambda>kv. \<not> startswith (fst kv) (py_str ep @ ''/'')) (attributes n)\<rparr>) s)"
  have s1: "signalled (trace s1) = signalled (trace s) @ [ENDPOINT_REMOVED nid ep]"
    "nodes s1 = nodes s" "set (attributes (heap s1 a)) \<subseteq> set (attributes (heap s a))"
    by (auto simp: s1_def effect_defs signalled_append)
  have step: "handle_endpoints_removed_loop nid node (ep # eps) s
                = handle_endpoints_removed_loop nid node eps s1"
    by (simp add: s1_def)
  from Cons.IH [of s1] s1 show ?case
    unfolding step by auto
qed

lemma filter_no_attribute_updated:
  "filter is_attribute_updated (map (ENDPOINT_REMOVED nid) eps) = []"
  by (induction eps) simp_all

lemma handle_endpoints_removed_quiet:
  assumes "handle_endpoints_removed nid eps s = (r, s1)"
  shows "filter is_attribute_updated (signalled (trace s1))
           = filter is_attribute_updated (signalled (trace s))
         \<and> set (attributes (heap s1 a)) \<subseteq> set (attributes (heap s a))"
proof (cases "map_of (nodes s) nid")
  case None
  with assms show ?thesis by (simp add: handle_endpoints_removed_def)
next
  case (Some node)
  with assms have "s1 = write_node_state nid False (handle_endpoints_removed_loop nid node eps s)"
    by (simp add: handle_endpoints_removed_def)
  then show ?thesis
    using handle_endpoints_removed_loop_facts [of nid node eps s a]
    by (simp add: write_node_state_frame filter_no_attribute_updated)
qed

lemma attribute_updated_bridge:
  assumes "is_bridge (heap s node)" and "path = DESCRIPTOR_PARTS_LIST_ATTRIBUTE_PATH"
  shows "filter is_attribute_updated
           (signalled (trace (snd (attribute_updated nid node path old_value new_value s))))
         = filter is_attribute_updated (signalled (trace s))
       \<and> set (attributes (heap (snd (attribute_updated nid node path old_value new_value s)) a))
           \<subseteq> set (attributes (heap s a))"
proof (cases "py_set (if truthy old_value then old_value else VList [])")
  case (Inl e)
  with assms show ?thesis by (simp add: attribute_updated_def)
next
  case old: (Inr old_set)
  show ?thesis
  proof (cases "py_set new_value")
    case (Inl e)
    with assms old show ?thesis by (simp add: attribute_updated_def)
  next
    case new: (Inr new_set)
    obtain r s1 where h: "(if py_set_diff old_set new_set \<noteq> []
                           then handle_endpoints_removed nid (py_set_diff old_set new_set) s
                           else (Inr (), s)) = (r, s1)"
      by (cases "if py_set_diff old_set new_set \<noteq> []
                 then handle_endpoints_removed nid (py_set_diff old_set new_set) s
                 else (Inr (), s)") blast
    have q: "filter is_attribute_updated (signalled (trace s1))
               = filter is_attribute_updated (signalled (trace s))
             \<and> set (attributes (heap s1 a)) \<subseteq> set (attributes (heap s a))"
    proof (cases "py_set_diff old_set new_set \<noteq> []")
      case True
      with h handle_endpoints_removed_quiet [of nid "py_set_diff old_set new_set" s r s1 a]
      show ?thesis by simp
    next
      case False
      with h show ?thesis by simp
    qed
    have res: "snd (attribute_updated nid node path old_value new_value s)
                 = (case r of
                      Inl e \<Rightarrow> s1
                    | Inr u \<Rightarrow>
                        if py_set_diff new_set old_set \<noteq> []
                        then create_task (TaskHandleEndpointsAdded nid (py_set_diff new_set old_set)) s1
                        else s1)"
      using assms old new h
      by (simp add: attribute_updated_def Let_def split: sum.splits)
    show ?thesis
      unfolding res using q
      by (cases r) (simp_all add: effect_defs signalled_append)
  qed
qed

text \<open>
  C4, as amended. For every update that \<open>attribute_updated\<close> processes, other than an
  update of \<open>0/Descriptor/PartsList\<close> on a bridge, the handler returns normally, assigns
  the new value to \<open>node.attributes[path]\<close>, calls \<open>_write_node_state\<close> (which schedules
  the write unless the node id is unknown or in the test-node range) and then signals
  \<open>ATTRIBUTE_UPDATED\<close> with \<open>(node_id, path, new)\<close>; a changed software version schedules an
  interview before that. For a bridge and the path \<open>0/Descriptor/PartsList\<close> the handler
  returns after the endpoint handling: it signals no \<open>ATTRIBUTE_UPDATED\<close> event and adds
  nothing to the attributes of the node.
\<close>

theorem attribute_updated_spec:
  "(\<not> (is_bridge (heap s node) \<and> path = DESCRIPTOR_PARTS_LIST_ATTRIBUTE_PATH) \<longrightarrow>
      fst (attribute_updated nid node path old_value new_value s) = Inr ()
      \<and> attributes (heap (snd (attribute_updated nid node path old_value new_value s)) node)
          = dict_set (attributes (heap s node)) path new_value
      \<and> dict_get (attributes (heap (snd (attribute_updated nid node path old_value new_value s)) node))
          path = new_value
      \<and> trace (snd (attribute_updated nid node path old_value new_value s))
          = trace s
            @ (if path = BASIC_INFORMATION_SOFTWARE_VERSION_ATTRIBUTE_PATH
                  \<and> \<not> py_eq new_value old_value
               then [CreateTask (TaskInterviewNode nid)] else [])
            @ (if map_of (nodes s) nid \<noteq> None \<and> nid < TEST_NODE_START
               then [StorageSetNode nid (the (map_of (nodes s) nid)) False] else [])
            @ [SignalEvent (ATTRIBUTE_UPDATED nid path new_value)])
   \<and> (is_bridge (heap s node) \<and> path = DESCRIPTOR_PARTS_LIST_ATTRIBUTE_PATH \<longrightarrow>
      filter is_attribute_updated
          (signalled (trace (snd (attribute_updated nid node path old_value new_value s))))
        = filter is_attribute_updated (signalled (trace s))
      \<and> set (attributes (heap (snd (attribute_updated nid node path old_value new_value s)) node))
          \<subseteq> set (attributes (heap s node)))"
proof (intro conjI impI)
  assume "\<not> (is_bridge (heap s node) \<and> path = DESCRIPTOR_PARTS_LIST_ATTRIBUTE_PATH)"
  then have a: "(is_bridge (heap s node) \<and> path = DESCRIPTOR_PARTS_LIST_ATTRIBUTE_PATH) = False"
    by simp
  show "fst (attribute_updated nid node path old_value new_value s) = Inr ()"
    by (simp add: attribute_updated_def a Let_def)
  show "attributes (heap (snd (attribute_updated nid node path old_value new_value s)) node)
          = dict_set (attributes (heap s node)) path new_value"
    by (simp add: attribute_updated_def a Let_def write_node_state_frame effect_defs)
  show "dict_get (attributes (heap (snd (attribute_updated nid node path old_value new_value s)) node))
          path = new_value"
    by (simp add: attribute_updated_def a Let_def write_node_state_frame effect_defs
          dict_get_def dict_set_def update_conv')
  show "trace (snd (attribute_updated nid node path old_value new_value s))
          = trace s
            @ (if path = BASIC_INFORMATION_SOFTWARE_VERSION_ATTRIBUTE_PATH
                  \<and> \<not> py_eq new_value old_value
               then [CreateTask (TaskInterviewNode nid)] else [])
            @ (if map_of (nodes s) nid \<noteq> None \<and> nid < TEST_NODE_START
               then [StorageSetNode nid (the (map_of (nodes s) nid)) False] else [])
            @ [SignalEvent (ATTRIBUTE_UPDATED nid path new_value)]"
    by (simp add: attribute_updated_def a Let_def write_node_state_trace effect_defs)
next
  assume "is_bridge (heap s node) \<and> path = DESCRIPTOR_PARTS_LIST_ATTRIBUTE_PATH"
  then have b: "is_bridge (heap s node)" "path = DESCRIPTOR_PARTS_LIST_ATTRIBUTE_PATH"
    by simp_all
  from attribute_updated_bridge [OF b, of nid old_value new_value node]
  show "filter is_attribute_updated
          (signalled (trace (snd (attribute_updated nid node path old_value new_value s))))
        = filter is_attribute_updated (signalled (trace s))"
    and "set (attributes (heap (snd (attribute_updated nid node path old_value new_value s)) node))
          \<subseteq> set (attributes (heap s node))"
    by simp_all
qed

theorem attribute_updated_spec_witness:
  "fst (attribute_updated 5 0 ''1/6/0'' (VBool True) (VBool False) bridge_controller) = Inr ()
   \<and> attributes (heap (snd (attribute_updated 5 0 ''1/6/0'' (VBool True) (VBool False)
        bridge_controller)) 0)
       = [(''0/29/3'', VList [VInt 1, VInt 2]), (''1/6/0'', VBool False), (''2/6/0'', VBool False)]
   \<and> trace (snd (attribute_updated 5 0 ''1/6/0'' (VBool True) (VBool False) bridge_controller))
       = [StorageSetNode 5 0 False, SignalEvent (ATTRIBUTE_UPDATED 5 ''1/6/0'' (VBool False))]"
  using attribute_updated_spec [of bridge_controller 0 "''1/6/0''" 5 "VBool True" "VBool False"]
  by (simp add: bridge_controller_def one_node_controller_def init_controller_def blank_node_def
        DESCRIPTOR_PARTS_LIST_ATTRIBUTE_PATH_def BASIC_INFORMATION_SOFTWARE_VERSION_ATTRIBUTE_PATH_def
        TEST_NODE_START_def dict_set_def)

text \<open>
  C4 as stated fails for a bridge: the PartsList update \<open>[1, 2] \<rightarrow> [2]\<close> removes endpoint 1
  and schedules a write, but the cached PartsList keeps its old value and no
  \<open>ATTRIBUTE_UPDATED\<close> event is signalled.
\<close>

theorem attribute_updated_bridge_counterexample:
  "fst (attribute_updated 5 0 ''0/29/3'' (VList [VInt 1, VInt 2]) (VList [VInt 2])
          bridge_controller) = Inr ()
   \<and> attributes (heap (snd (attribute_updated 5 0 ''0/29/3'' (VList [VInt 1, VInt 2])
        (VList [VInt 2]) bridge_controller)) 0)
       = [(''0/29/3'', VList [VInt 1, VInt 2]), (''2/6/0'', VBool False)]
   \<and> trace (snd (attribute_updated 5 0 ''0/29/3'' (VList [VInt 1, VInt 2]) (VList [VInt 2])
        bridge_controller))
       = [SignalEvent (ENDPOINT_REMOVED 5 (KInt 1)), StorageSetNode 5 0 False]"
  by code_simp

section \<open>Reading attributes\<close>









section \<open>Node setup\<close>










end
